theory Spec2Isabelle
  imports Complex_Main "HOL-Library.Log_Nat" "HOL-Library.AList"
begin

section \<open>Python values\<close>

text \<open>
  The program \<^verbatim>\<open>computeSales.py\<close> works on whatever \<^verbatim>\<open>json.load\<close> hands it, so the
  model has one type of Python objects with the seven shapes a JSON document can take.
  A \<^verbatim>\<open>float\<close> is an IEEE 754 binary64 number: a finite value is kept as the rational it
  denotes, and the negative zero, the two infinities and NaN are values of their own.
  A \<^verbatim>\<open>dict\<close> parsed from a JSON object is an association list with string keys (looked
  up with \<open>map_of\<close>), a \<^verbatim>\<open>str\<close> is a list of characters with code points below 256.
\<close>

datatype pyfloat = Fin rat | NegZero | PInf | NInf | NaN

datatype pyval =
    PyNone
  | PyBool bool
  | PyInt int
  | PyFloat pyfloat
  | PyStr string
  | PyList "pyval list"
  | PyDict "(string \<times> pyval) list"

text \<open>
  Exceptions are values. \<open>KeyError\<close> carries the missing key; \<open>ValueError\<close> carries its
  message when the source supplies one (\<open>None\<close>: raised by a builtin, with the
  interpreter's own text). \<open>JSONDecodeError\<close> and \<open>UnicodeDecodeError\<close> are subclasses
  of \<open>ValueError\<close>, \<open>FileNotFoundError\<close> and \<open>PermissionError\<close> of \<open>OSError\<close>.
\<close>

datatype py_error =
    KeyError pyval
  | ValueError "string option"
  | TypeError
  | OverflowError
  | FileNotFoundError
  | PermissionError
  | JSONDecodeError
  | UnicodeDecodeError
  | SystemExit int

text \<open>
  What \<^verbatim>\<open>print\<close> writes: a finished text, or the literal part of an f-string followed by
  the object that is interpolated into it (the text \<^verbatim>\<open>str\<close> gives an exception or an
  arbitrary object is the interpreter's).
\<close>

datatype out_line =
    Line string
  | Line_error string py_error
  | Line_value string pyval

type_synonym 'a io = "out_line list \<times> (py_error + 'a)"

definition and_then :: "'e + 'a \<Rightarrow> ('a \<Rightarrow> 'e + 'b) \<Rightarrow> 'e + 'b" where
  "and_then r f = (case r of Inl e \<Rightarrow> Inl e | Inr x \<Rightarrow> f x)"

section \<open>Binary64 arithmetic\<close>

text \<open>\<open>flog2 x\<close> is the binary exponent of a positive rational: \<open>2 ^ e \<le> x < 2 ^ (e + 1)\<close>.\<close>

definition flog2 :: "rat \<Rightarrow> int" where
  "flog2 x = (let (a, b) = quotient_of x; e = bitlen a - bitlen b
              in if 2 powi e \<le> x then e else e - 1)"

definition round_half_even :: "rat \<Rightarrow> int" where
  "round_half_even x =
     (let f = \<lfloor>x\<rfloor>; d = x - of_int f
      in if d < 1 / 2 then f else if 1 / 2 < d then f + 1
         else if even f then f else f + 1)"

text \<open>
  Rounding of a magnitude to 53 significant bits, ties to even, with the exponent kept
  at or above \<open>-1022\<close> (below it the numbers are subnormal, multiples of \<open>2 ^ -1074\<close>).
\<close>

definition round_mag :: "rat \<Rightarrow> rat" where
  "round_mag x =
     (if x = 0 then 0
      else let e = max (flog2 x) (- 1022); q = 2 powi (e - 52)
           in of_int (round_half_even (x / q)) * q)"

definition overflow_limit :: rat where
  "overflow_limit = 2 ^ 1024"

definition round64 :: "rat \<Rightarrow> pyfloat" where
  "round64 x =
     (if 0 \<le> x then (let m = round_mag x in if overflow_limit \<le> m then PInf else Fin m)
      else (let m = round_mag (- x)
            in if overflow_limit \<le> m then NInf else if m = 0 then NegZero else Fin (- m)))"

definition is_zero :: "pyfloat \<Rightarrow> bool" where
  "is_zero a \<longleftrightarrow> a = Fin 0 \<or> a = NegZero"

definition is_negative :: "pyfloat \<Rightarrow> bool" where
  "is_negative a = (case a of Fin r \<Rightarrow> r < 0 | NegZero \<Rightarrow> True | NInf \<Rightarrow> True | _ \<Rightarrow> False)"

definition is_infinite :: "pyfloat \<Rightarrow> bool" where
  "is_infinite a \<longleftrightarrow> a = PInf \<or> a = NInf"

definition is_finite :: "pyfloat \<Rightarrow> bool" where
  "is_finite a = (case a of Fin r \<Rightarrow> True | NegZero \<Rightarrow> True | _ \<Rightarrow> False)"

text \<open>The number a finite float denotes (both zeros denote 0).\<close>

definition fval :: "pyfloat \<Rightarrow> rat" where
  "fval a = (case a of Fin r \<Rightarrow> r | _ \<Rightarrow> 0)"

definition signed_zero :: "bool \<Rightarrow> pyfloat" where
  "signed_zero neg = (if neg then NegZero else Fin 0)"

definition signed_inf :: "bool \<Rightarrow> pyfloat" where
  "signed_inf neg = (if neg then NInf else PInf)"

text \<open>\<^verbatim>\<open>a + b\<close> on floats.\<close>

definition fadd :: "pyfloat \<Rightarrow> pyfloat \<Rightarrow> pyfloat" where
  "fadd a b =
     (if a = NaN \<or> b = NaN then NaN
      else if is_infinite a then (if is_infinite b \<and> a \<noteq> b then NaN else a)
      else if is_infinite b then b
      else if a = NegZero \<and> b = NegZero then NegZero
      else round64 (fval a + fval b))"

text \<open>\<^verbatim>\<open>a * b\<close> on floats.\<close>

definition fmul :: "pyfloat \<Rightarrow> pyfloat \<Rightarrow> pyfloat" where
  "fmul a b =
     (if a = NaN \<or> b = NaN then NaN
      else if is_infinite a \<or> is_infinite b
        then (if is_zero a \<or> is_zero b then NaN
              else signed_inf (is_negative a \<noteq> is_negative b))
      else if is_zero a \<or> is_zero b then signed_zero (is_negative a \<noteq> is_negative b)
      else round64 (fval a * fval b))"

definition fneg :: "pyfloat \<Rightarrow> pyfloat" where
  "fneg a = (case a of Fin r \<Rightarrow> (if r = 0 then NegZero else Fin (- r))
             | NegZero \<Rightarrow> Fin 0 | PInf \<Rightarrow> NInf | NInf \<Rightarrow> PInf | NaN \<Rightarrow> NaN)"

text \<open>\<^verbatim>\<open>a - b\<close> on floats.\<close>

definition fsub :: "pyfloat \<Rightarrow> pyfloat \<Rightarrow> pyfloat" where
  "fsub a b = fadd a (fneg b)"


text \<open>
  The conversion of an \<^verbatim>\<open>int\<close> to a \<^verbatim>\<open>float\<close>, as \<^verbatim>\<open>float(i)\<close> and the mixed product
  \<^verbatim>\<open>f * i\<close> do it: correctly rounded, and OverflowError when the rounded value is out
  of range.
\<close>

definition int_to_float :: "int \<Rightarrow> py_error + pyfloat" where
  "int_to_float i = (let f = round64 (of_int i) in if is_infinite f then Inl OverflowError else Inr f)"

definition float_mul_int :: "pyfloat \<Rightarrow> int \<Rightarrow> py_error + pyfloat" where
  "float_mul_int a i = and_then (int_to_float i) (\<lambda>b. Inr (fmul a b))"

text \<open>\<^verbatim>\<open>int(f)\<close> on a float truncates toward zero.\<close>

definition float_to_int :: "pyfloat \<Rightarrow> py_error + int" where
  "float_to_int a =
     (case a of
        Fin r \<Rightarrow> Inr (if 0 \<le> r then \<lfloor>r\<rfloor> else \<lceil>r\<rceil>)
      | NegZero \<Rightarrow> Inr 0
      | NaN \<Rightarrow> Inl (ValueError None)
      | _ \<Rightarrow> Inl OverflowError)"

section \<open>Builtins: subscripting, iteration, \<^verbatim>\<open>int\<close> and \<^verbatim>\<open>float\<close>\<close>

text \<open>\<^verbatim>\<open>obj[name]\<close> with a string subscript: only a dict accepts it.\<close>

definition getitem :: "pyval \<Rightarrow> string \<Rightarrow> py_error + pyval" where
  "getitem obj name =
     (case obj of
        PyDict d \<Rightarrow> (case map_of d name of None \<Rightarrow> Inl (KeyError (PyStr name)) | Some v \<Rightarrow> Inr v)
      | _ \<Rightarrow> Inl TypeError)"

text \<open>
  What \<^verbatim>\<open>for x in obj\<close> runs through: the elements of a list, the keys of a dict, the
  characters of a string; anything else is not iterable.
\<close>

definition py_iter :: "pyval \<Rightarrow> py_error + pyval list" where
  "py_iter obj =
     (case obj of
        PyList xs \<Rightarrow> Inr xs
      | PyDict d \<Rightarrow> Inr (map (\<lambda>(k, v). PyStr k) d)
      | PyStr s \<Rightarrow> Inr (map (\<lambda>c. PyStr [c]) s)
      | _ \<Rightarrow> Inl TypeError)"

text \<open>Whitespace that \<^verbatim>\<open>int\<close> and \<^verbatim>\<open>float\<close> strip from a string, and decimal digits.\<close>

definition is_space :: "char \<Rightarrow> bool" where
  "is_space c = (let n = (of_char c :: nat)
                 in (9 \<le> n \<and> n \<le> 13) \<or> (28 \<le> n \<and> n \<le> 32) \<or> n = 133 \<or> n = 160)"

definition strip :: "string \<Rightarrow> string" where
  "strip s = rev (dropWhile is_space (rev (dropWhile is_space s)))"

definition digit_val :: "char \<Rightarrow> nat option" where
  "digit_val c = (let n = (of_char c :: nat) in if 48 \<le> n \<and> n \<le> 57 then Some (n - 48) else None)"

text \<open>A run of digits in which single underscores may stand between two digits.\<close>

fun digits_us :: "string \<Rightarrow> nat list option" where
  "digits_us [] = None"
| "digits_us (c # cs) =
     (case digit_val c of
        None \<Rightarrow> None
      | Some d \<Rightarrow>
         (case cs of
            [] \<Rightarrow> Some [d]
          | c' # cs' \<Rightarrow>
             map_option (Cons d) (if c' = CHR ''_'' then digits_us cs' else digits_us (c' # cs'))))"

definition nat_of_digits :: "nat list \<Rightarrow> nat" where
  "nat_of_digits ds = foldl (\<lambda>a d. 10 * a + d) 0 ds"

text \<open>The optional sign in front of a number: whether it is a minus, and the rest.\<close>

definition split_sign :: "string \<Rightarrow> bool \<times> string" where
  "split_sign s =
     (case s of
        [] \<Rightarrow> (False, [])
      | c # cs \<Rightarrow> if c = CHR ''-'' then (True, cs) else if c = CHR ''+'' then (False, cs) else (False, s))"

text \<open>
  The interpreter's default limit on the conversion between \<^verbatim>\<open>int\<close> and \<^verbatim>\<open>str\<close>: a
  numeral of more digits is refused with ValueError, in both directions.
\<close>

definition max_str_digits :: nat where
  "max_str_digits = 4300"

text \<open>\<^verbatim>\<open>int(s)\<close> on a string, base 10.\<close>

definition int_of_str :: "string \<Rightarrow> py_error + int" where
  "int_of_str s =
     (let (neg, body) = split_sign (strip s)
      in case digits_us body of
           None \<Rightarrow> Inl (ValueError None)
         | Some ds \<Rightarrow>
            if max_str_digits < length ds then Inl (ValueError None)
            else Inr (if neg then - int (nat_of_digits ds) else int (nat_of_digits ds)))"

definition py_int :: "pyval \<Rightarrow> py_error + int" where
  "py_int v =
     (case v of
        PyBool b \<Rightarrow> Inr (if b then 1 else 0)
      | PyInt i \<Rightarrow> Inr i
      | PyFloat f \<Rightarrow> float_to_int f
      | PyStr s \<Rightarrow> int_of_str s
      | _ \<Rightarrow> Inl TypeError)"

text \<open>
  \<^verbatim>\<open>float(s)\<close> on a string: \<^verbatim>\<open>inf\<close>, \<^verbatim>\<open>infinity\<close> and \<^verbatim>\<open>nan\<close> in any case, or a decimal
  numeral with an optional fraction and an optional exponent, rounded correctly.
\<close>

definition lower :: "char \<Rightarrow> char" where
  "lower c = (let n = (of_char c :: nat) in if 65 \<le> n \<and> n \<le> 90 then char_of (n + 32) else c)"

definition is_exp_mark :: "char \<Rightarrow> bool" where
  "is_exp_mark c \<longleftrightarrow> c = CHR ''e'' \<or> c = CHR ''E''"

text \<open>
  The mantissa \<^verbatim>\<open>ddd\<close>, \<^verbatim>\<open>ddd.\<close>, \<^verbatim>\<open>.ddd\<close> or \<^verbatim>\<open>ddd.ddd\<close>: its digits before and after
  the point.
\<close>

definition parse_mantissa :: "string \<Rightarrow> (nat list \<times> nat list) option" where
  "parse_mantissa s =
     (let ip = takeWhile (\<lambda>c. c \<noteq> CHR ''.'') s; rest = dropWhile (\<lambda>c. c \<noteq> CHR ''.'') s
      in case rest of
           [] \<Rightarrow> map_option (\<lambda>ds. (ds, [])) (digits_us ip)
         | dot # fp \<Rightarrow>
            if ip = [] then map_option (\<lambda>fs. ([], fs)) (digits_us fp)
            else if fp = [] then map_option (\<lambda>ds. (ds, [])) (digits_us ip)
            else (case (digits_us ip, digits_us fp) of
                    (Some ds, Some fs) \<Rightarrow> Some (ds, fs)
                  | _ \<Rightarrow> None))"

definition parse_exponent :: "string \<Rightarrow> int option" where
  "parse_exponent s =
     (case s of
        [] \<Rightarrow> Some 0
      | mark # es \<Rightarrow>
         (let (neg, body) = split_sign es
          in map_option (\<lambda>ds. if neg then - int (nat_of_digits ds) else int (nat_of_digits ds))
               (digits_us body)))"

definition decimal_value :: "nat list \<Rightarrow> nat list \<Rightarrow> int \<Rightarrow> rat" where
  "decimal_value ds fs ex =
     of_nat (nat_of_digits (ds @ fs)) * 10 powi (ex - int (length fs))"

definition float_of_str :: "string \<Rightarrow> py_error + pyfloat" where
  "float_of_str s =
     (let (neg, body) = split_sign (strip s); word = map lower body
      in if word = ''inf'' \<or> word = ''infinity'' then Inr (signed_inf neg)
         else if word = ''nan'' then Inr NaN
         else
           (case parse_mantissa (takeWhile (\<lambda>c. \<not> is_exp_mark c) body) of
              None \<Rightarrow> Inl (ValueError None)
            | Some (ds, fs) \<Rightarrow>
               (case parse_exponent (dropWhile (\<lambda>c. \<not> is_exp_mark c) body) of
                  None \<Rightarrow> Inl (ValueError None)
                | Some ex \<Rightarrow>
                   (let m = decimal_value ds fs ex
                    in Inr (if m = 0 then signed_zero neg
                            else round64 (if neg then - m else m))))))"

definition py_float :: "pyval \<Rightarrow> py_error + pyfloat" where
  "py_float v =
     (case v of
        PyBool b \<Rightarrow> Inr (Fin (if b then 1 else 0))
      | PyInt i \<Rightarrow> int_to_float i
      | PyFloat f \<Rightarrow> Inr f
      | PyStr s \<Rightarrow> float_of_str s
      | _ \<Rightarrow> Inl TypeError)"

section \<open>The catalogue dictionary\<close>

text \<open>
  A key of a Python dict is found by hash and equality: \<^verbatim>\<open>True\<close>, \<^verbatim>\<open>1\<close> and \<^verbatim>\<open>1.0\<close> are one
  key, and so are \<^verbatim>\<open>0\<close>, \<^verbatim>\<open>0.0\<close> and \<^verbatim>\<open>-0.0\<close>. Lists and dicts cannot be hashed. The one
  NaN object of the \<^verbatim>\<open>json\<close> module is found again by identity.
\<close>

datatype key = KNone | KNum rat | KPosInf | KNegInf | KNaN | KStr string

definition hash_key :: "pyval \<Rightarrow> py_error + key" where
  "hash_key v =
     (case v of
        PyNone \<Rightarrow> Inr KNone
      | PyBool b \<Rightarrow> Inr (KNum (if b then 1 else 0))
      | PyInt i \<Rightarrow> Inr (KNum (of_int i))
      | PyFloat f \<Rightarrow>
         Inr (case f of Fin r \<Rightarrow> KNum r | NegZero \<Rightarrow> KNum 0 | PInf \<Rightarrow> KPosInf
              | NInf \<Rightarrow> KNegInf | NaN \<Rightarrow> KNaN)
      | PyStr s \<Rightarrow> Inr (KStr s)
      | _ \<Rightarrow> Inl TypeError)"

text \<open>
  The catalogue is a dict in insertion order, \<^verbatim>\<open>Dict[str, float]\<close> in the source:
  assignment replaces the value of a key that is present and appends a new key.
\<close>

type_synonym catalogue = "(key \<times> pyfloat) list"

definition dict_setitem :: "catalogue \<Rightarrow> pyval \<Rightarrow> pyfloat \<Rightarrow> py_error + catalogue" where
  "dict_setitem cat k v = and_then (hash_key k) (\<lambda>h. Inr (AList.update h v cat))"

definition dict_contains :: "catalogue \<Rightarrow> pyval \<Rightarrow> py_error + bool" where
  "dict_contains cat k = and_then (hash_key k) (\<lambda>h. Inr (map_of cat h \<noteq> None))"

definition dict_getitem :: "catalogue \<Rightarrow> pyval \<Rightarrow> py_error + pyfloat" where
  "dict_getitem cat k =
     and_then (hash_key k)
       (\<lambda>h. case map_of cat h of None \<Rightarrow> Inl (KeyError k) | Some v \<Rightarrow> Inr v)"

section \<open>Files\<close>

text \<open>
  What \<^verbatim>\<open>open(filename, "r", encoding="utf-8")\<close> followed by \<^verbatim>\<open>json.load\<close> meets: no such
  file, a file that may not be read, bytes that are not UTF-8, text that is not JSON,
  or a document, given as the object \<^verbatim>\<open>json.load\<close> returns for it.
\<close>

datatype file_state = Absent | Unreadable | Not_UTF8 | Not_JSON | Document pyval

type_synonym filesystem = "string \<Rightarrow> file_state"

definition open_json :: "filesystem \<Rightarrow> string \<Rightarrow> py_error + pyval" where
  "open_json fs filename =
     (case fs filename of
        Absent \<Rightarrow> Inl FileNotFoundError
      | Unreadable \<Rightarrow> Inl PermissionError
      | Not_UTF8 \<Rightarrow> Inl UnicodeDecodeError
      | Not_JSON \<Rightarrow> Inl JSONDecodeError
      | Document v \<Rightarrow> Inr v)"

definition quote :: string where
  "quote = [CHR 0x27]"

definition newline :: string where
  "newline = [CHR 0x0A]"

definition not_found_message :: "string \<Rightarrow> out_line" where
  "not_found_message filename = Line (''Error: File '' @ quote @ filename @ quote @ '' not found.'')"

definition invalid_json_message :: "string \<Rightarrow> out_line" where
  "invalid_json_message filename =
     Line (''Error: Invalid JSON format in '' @ quote @ filename @ quote @ ''.'')"

section \<open>The program\<close>

text \<open>\<^verbatim>\<open>except (KeyError, ValueError, TypeError)\<close>, with the subclasses of \<open>ValueError\<close>.\<close>

definition entry_handler :: "py_error \<Rightarrow> bool" where
  "entry_handler e =
     (case e of
        KeyError k \<Rightarrow> True
      | ValueError m \<Rightarrow> True
      | TypeError \<Rightarrow> True
      | JSONDecodeError \<Rightarrow> True
      | UnicodeDecodeError \<Rightarrow> True
      | _ \<Rightarrow> False)"

subsection \<open>\<^verbatim>\<open>load_product_catalogue\<close>\<close>

text \<open>The three statements inside the inner \<^verbatim>\<open>try\<close>, for one element of the document.\<close>

definition try_product_entry :: "catalogue \<Rightarrow> pyval \<Rightarrow> py_error + catalogue" where
  "try_product_entry cat item =
     and_then (getitem item ''title'') (\<lambda>title.
     and_then (getitem item ''price'') (\<lambda>p.
     and_then (py_float p) (\<lambda>price.
     dict_setitem cat title price)))"

text \<open>
  The loop \<^verbatim>\<open>for item in data\<close>: an exception of the three handled classes prints a line
  and the loop goes on, any other leaves the function.
\<close>

fun catalogue_loop :: "catalogue \<Rightarrow> pyval list \<Rightarrow> catalogue io" where
  "catalogue_loop cat [] = ([], Inr cat)"
| "catalogue_loop cat (item # items) =
     (case try_product_entry cat item of
        Inr cat' \<Rightarrow> catalogue_loop cat' items
      | Inl error \<Rightarrow>
         if entry_handler error
         then (let (out, r) = catalogue_loop cat items
               in (Line_error ''Invalid product entry skipped: '' error # out, r))
         else ([], Inl error))"

definition load_product_catalogue :: "filesystem \<Rightarrow> string \<Rightarrow> catalogue io" where
  "load_product_catalogue fs filename =
     (case open_json fs filename of
        Inr data \<Rightarrow>
         (case py_iter data of
            Inl error \<Rightarrow> ([], Inl error)
          | Inr items \<Rightarrow> catalogue_loop [] items)
      | Inl error \<Rightarrow>
         if error = FileNotFoundError then ([not_found_message filename], Inr [])
         else if error = JSONDecodeError then ([invalid_json_message filename], Inr [])
         else ([], Inl error))"

subsection \<open>\<^verbatim>\<open>load_sales\<close>\<close>

definition load_sales :: "filesystem \<Rightarrow> string \<Rightarrow> pyval io" where
  "load_sales fs filename =
     (case open_json fs filename of
        Inr data \<Rightarrow> ([], Inr data)
      | Inl error \<Rightarrow>
         if error = FileNotFoundError then ([not_found_message filename], Inr (PyList []))
         else if error = JSONDecodeError then ([invalid_json_message filename], Inr (PyList []))
         else ([], Inl error))"

subsection \<open>\<^verbatim>\<open>compute_total_sales\<close>\<close>

text \<open>
  The object interpolated into an f-string is converted with \<^verbatim>\<open>str\<close>; this fails on an
  \<^verbatim>\<open>int\<close> beyond the limit of the conversion. (The objects printed by the program are
  never lists or dicts.)
\<close>

definition format_arg :: "pyval \<Rightarrow> py_error + pyval" where
  "format_arg v =
     (case v of
        PyInt i \<Rightarrow> if 10 ^ max_str_digits \<le> \<bar>i\<bar> then Inl (ValueError None) else Inr v
      | _ \<Rightarrow> Inr v)"

definition quantity_message :: string where
  "quantity_message = ''Quantity must be greater than zero.''"

text \<open>
  The body of the \<^verbatim>\<open>try\<close> for one sale, from the running total \<open>tot\<close>: the lines it
  prints and the new total, or the exception it raises.
\<close>

definition try_sale :: "catalogue \<Rightarrow> pyfloat \<Rightarrow> pyval \<Rightarrow> py_error + (out_line list \<times> pyfloat)" where
  "try_sale cat tot sale =
     and_then (getitem sale ''Product'') (\<lambda>product.
     and_then (getitem sale ''Quantity'') (\<lambda>q.
     and_then (py_int q) (\<lambda>quantity.
       if quantity \<le> 0 then Inl (ValueError (Some quantity_message))
       else
         and_then (dict_contains cat product) (\<lambda>found.
           if \<not> found
           then and_then (format_arg product) (\<lambda>shown.
                Inr ([Line_value ''Product not found in catalogue: '' shown], tot))
           else
             and_then (dict_getitem cat product) (\<lambda>price.
             and_then (float_mul_int price quantity) (\<lambda>amount.
             Inr ([], fadd tot amount)))))))"

fun sales_loop :: "catalogue \<Rightarrow> pyfloat \<Rightarrow> pyval list \<Rightarrow> pyfloat io" where
  "sales_loop cat tot [] = ([], Inr tot)"
| "sales_loop cat tot (sale # sales) =
     (case try_sale cat tot sale of
        Inr (printed, tot') \<Rightarrow>
         (let (out, r) = sales_loop cat tot' sales in (printed @ out, r))
      | Inl error \<Rightarrow>
         if entry_handler error
         then (let (out, r) = sales_loop cat tot sales
               in (Line_error ''Invalid sale record skipped: '' error # out, r))
         else ([], Inl error))"

definition compute_total_sales :: "catalogue \<Rightarrow> pyval \<Rightarrow> pyfloat io" where
  "compute_total_sales cat sales =
     (case py_iter sales of
        Inl error \<Rightarrow> ([], Inl error)
      | Inr records \<Rightarrow> sales_loop cat (Fin 0) records)"

subsection \<open>\<^verbatim>\<open>save_results\<close> and \<^verbatim>\<open>main\<close>\<close>

text \<open>
  The format specification \<^verbatim>\<open>.Nf\<close>: the decimal numeral nearest to the exact value of
  the float (ties to even) with \<open>N\<close> digits after the point; \<^verbatim>\<open>inf\<close>, \<^verbatim>\<open>-inf\<close> and \<^verbatim>\<open>nan\<close>
  are written as such.
\<close>

definition digit_char :: "nat \<Rightarrow> char" where
  "digit_char d = char_of (48 + d)"

fun nat_digits :: "nat \<Rightarrow> string" where
  "nat_digits n = (if n < 10 then [digit_char n] else nat_digits (n div 10) @ [digit_char (n mod 10)])"

declare nat_digits.simps [simp del]

definition frac_digits :: "nat \<Rightarrow> nat \<Rightarrow> string" where
  "frac_digits p m = map (\<lambda>i. digit_char (m div 10 ^ (p - 1 - i) mod 10)) [0..<p]"

definition fixed_digits :: "nat \<Rightarrow> nat \<Rightarrow> string" where
  "fixed_digits p m =
     nat_digits (m div 10 ^ p) @ (if p = 0 then [] else CHR ''.'' # frac_digits p (m mod 10 ^ p))"

definition format_fixed :: "nat \<Rightarrow> pyfloat \<Rightarrow> string" where
  "format_fixed p a =
     (case a of
        Fin r \<Rightarrow> (if r < 0 then ''-'' else []) @ fixed_digits p (nat (round_half_even (\<bar>r\<bar> * 10 ^ p)))
      | NegZero \<Rightarrow> ''-'' @ fixed_digits p 0
      | PInf \<Rightarrow> ''inf''
      | NInf \<Rightarrow> ''-inf''
      | NaN \<Rightarrow> ''nan'')"

text \<open>
  What the program finds when it runs: its arguments, the files it may read, whether a
  file may be opened for writing, and the two readings of \<^verbatim>\<open>time.time()\<close>.
\<close>

record world =
  argv :: "string list"
  files :: filesystem
  writable :: "string \<Rightarrow> bool"
  clock :: "pyfloat \<times> pyfloat"

text \<open>
  \<^verbatim>\<open>save_results\<close> opens \<^verbatim>\<open>SalesResults.txt\<close> for writing and writes four strings. The
  result is the file written, as its name and its new content; a failure to open it is
  not handled.
\<close>

definition save_results :: "(string \<Rightarrow> bool) \<Rightarrow> pyfloat \<Rightarrow> pyfloat \<Rightarrow> py_error + (string \<times> string)" where
  "save_results may_write tot elapsed_time =
     (if \<not> may_write ''SalesResults.txt'' then Inl PermissionError
      else Inr (''SalesResults.txt'',
             ''Sales Results'' @ newline
             @ ''----------------------------'' @ newline
             @ ''Total sales amount: $'' @ format_fixed 2 tot @ newline
             @ ''Execution time: '' @ format_fixed 6 elapsed_time @ '' seconds'' @ newline))"

definition usage :: out_line where
  "usage = Line ''Usage: python computeSales.py priceCatalogue.json salesRecord.json''"

definition main :: "world \<Rightarrow> (string \<times> string) io" where
  "main w =
     (if length (argv w) \<noteq> 3 then ([usage], Inl (SystemExit 1))
      else
        let start_time = fst (clock w);
            catalogue_file = argv w ! 1;
            sales_file = argv w ! 2
        in case load_product_catalogue (files w) catalogue_file of
             (out1, Inl error) \<Rightarrow> (out1, Inl error)
           | (out1, Inr catalogue) \<Rightarrow>
        case load_sales (files w) sales_file of
             (out2, Inl error) \<Rightarrow> (out1 @ out2, Inl error)
           | (out2, Inr sales) \<Rightarrow>
        case compute_total_sales catalogue sales of
             (out3, Inl error) \<Rightarrow> (out1 @ out2 @ out3, Inl error)
           | (out3, Inr tot) \<Rightarrow>
        let elapsed_time = fsub (snd (clock w)) start_time
        in (out1 @ out2 @ out3 @
            [Line (newline @ ''Sales Results''),
             Line ''----------------------------'',
             Line (''Total sales amount: $'' @ format_fixed 2 tot),
             Line (''Execution time: '' @ format_fixed 6 elapsed_time @ '' seconds'')],
            save_results (writable w) tot elapsed_time))"

text \<open>The text \<^verbatim>\<open>print\<close> sends to standard output for a finished line.\<close>

definition printed_text :: "string list \<Rightarrow> string" where
  "printed_text ls = concat (map (\<lambda>l. l @ newline) ls)"

section \<open>The specification's reading of the total\<close>








text \<open>
  The report as the specification describes it: a title, a separator, the total with
  two decimals after a currency sign, and the elapsed time with six decimals.
\<close>

definition report_lines :: "pyfloat \<Rightarrow> pyfloat \<Rightarrow> string list" where
  "report_lines tot elapsed_time =
     [''Sales Results'',
      ''----------------------------'',
      ''Total sales amount: $'' @ format_fixed 2 tot,
      ''Execution time: '' @ format_fixed 6 elapsed_time @ '' seconds'']"

text \<open>
  A numeral with exactly \<open>p\<close> fraction digits: an optional minus sign, at least one
  digit, a point, and \<open>p\<close> digits.
\<close>

definition is_digit :: "char \<Rightarrow> bool" where
  "is_digit c \<longleftrightarrow> digit_val c \<noteq> None"

definition fixed_point_numeral :: "nat \<Rightarrow> string \<Rightarrow> bool" where
  "fixed_point_numeral p s =
     (let body = (case s of [] \<Rightarrow> [] | c # cs \<Rightarrow> if c = CHR ''-'' then cs else s);
          ip = takeWhile is_digit body
      in ip \<noteq> [] \<and>
         (case drop (length ip) body of
            [] \<Rightarrow> False
          | d # fd \<Rightarrow> d = CHR ''.'' \<and> length fd = p \<and> list_all is_digit fd))"

section \<open>Properties\<close>

subsection \<open>Rounding to binary64\<close>

lemma p2_less_iff: "(2::rat) powi m < 2 powi n \<longleftrightarrow> m < n"
proof
  assume "(2::rat) powi m < 2 powi n"
  show "m < n"
  proof (rule ccontr)
    assume "\<not> m < n"
    then have "n \<le> m" by simp
    then have "(2::rat) powi n \<le> 2 powi m" by (intro power_int_increasing) auto
    with \<open>(2::rat) powi m < 2 powi n\<close> show False by simp
  qed
next
  assume "m < n"
  then show "(2::rat) powi m < 2 powi n" by (intro power_int_strict_increasing) auto
qed

lemma p2_le_iff: "(2::rat) powi m \<le> 2 powi n \<longleftrightarrow> m \<le> n"
  using p2_less_iff [of n m] by (auto simp: not_less [symmetric])

lemma p2_add: "(2::rat) powi (m + n) = 2 powi m * 2 powi n"
  by (simp add: power_int_add)

lemma p2_diff: "(2::rat) powi (m - n) = 2 powi m / 2 powi n"
  by (simp add: power_int_diff)

lemma bitlen_rat_bounds:
  assumes "0 < a"
  shows "(2::rat) powi (bitlen a - 1) \<le> of_int a" and "of_int a < (2::rat) powi (bitlen a)"
proof -
  from assms have ge: "1 \<le> bitlen a" by (auto simp: bitlen_alt_def)
  from bitlen_bounds [OF assms] have l: "2 ^ nat (bitlen a - 1) \<le> a" and u: "a < 2 ^ nat (bitlen a)"
    by auto
  from l have "(of_int (2 ^ nat (bitlen a - 1)) :: rat) \<le> of_int a" by (simp only: of_int_le_iff)
  then show "(2::rat) powi (bitlen a - 1) \<le> of_int a" using ge by (simp add: power_int_def)
  from u have "(of_int a :: rat) < of_int (2 ^ nat (bitlen a))" by (simp only: of_int_less_iff)
  then show "of_int a < (2::rat) powi (bitlen a)" using ge by (simp add: power_int_def)
qed

lemma flog2_bounds:
  assumes "0 < x"
  shows "2 powi (flog2 x) \<le> x" and "x < 2 powi (flog2 x + 1)"
proof -
  obtain a b where q: "quotient_of x = (a, b)" by force
  have b: "0 < b" using quotient_of_denom_pos [OF q] .
  have x: "x = of_int a / of_int b" using quotient_of_div [OF q] .
  have a: "0 < a" using assms b x by (simp add: zero_less_divide_iff)
  define e where "e = bitlen a - bitlen b"
  have up: "x < 2 powi (e + 1)"
  proof -
    have "of_int a < (2::rat) powi (bitlen a)" by (rule bitlen_rat_bounds [OF a])
    also have "\<dots> = 2 powi (e + 1) * 2 powi (bitlen b - 1)"
      by (simp add: e_def flip: p2_add)
    also have "\<dots> \<le> 2 powi (e + 1) * of_int b"
      by (intro mult_left_mono bitlen_rat_bounds [OF b]) simp
    finally show ?thesis using b by (simp add: x pos_divide_less_eq)
  qed
  have lo: "2 powi (e - 1) \<le> x"
  proof -
    have "(2::rat) powi (e - 1) * of_int b \<le> 2 powi (e - 1) * 2 powi (bitlen b)"
      by (intro mult_left_mono less_imp_le [OF bitlen_rat_bounds(2) [OF b]]) simp
    also have "\<dots> = 2 powi (bitlen a - 1)"
      by (simp add: e_def flip: p2_add)
    also have "\<dots> \<le> of_int a" by (rule bitlen_rat_bounds [OF a])
    finally show ?thesis using b by (simp add: x pos_le_divide_eq)
  qed
  have f: "flog2 x = (if 2 powi e \<le> x then e else e - 1)"
    by (simp add: flog2_def q e_def Let_def)
  show "2 powi (flog2 x) \<le> x" using lo by (simp add: f)
  show "x < 2 powi (flog2 x + 1)" using up by (auto simp: f not_le)
qed



lemma round_half_even_of_int [simp]: "round_half_even (of_int n) = n"
  by (simp add: round_half_even_def)










lemma round_mag_exact:
  assumes n: "0 < n" "n < 2 ^ 53" and k: "- 1074 \<le> k"
  shows "round_mag (of_int n * 2 powi k) = of_int n * 2 powi k"
proof -
  define x :: rat where "x = of_int n * 2 powi k"
  have x: "0 < x" using n by (simp add: x_def)
  define e where "e = max (flog2 x) (- 1022)"
  have "(of_int n :: rat) < of_int (2 ^ 53)" using n(2) by (simp only: of_int_less_iff)
  then have "x < of_int (2 ^ 53) * 2 powi k" by (simp add: x_def)
  also have "\<dots> = 2 powi (k + 53)" by (simp add: p2_add)
  finally have "(2::rat) powi (flog2 x) < 2 powi (k + 53)"
    using flog2_bounds(1) [OF x] by simp
  then have "flog2 x < k + 53" by (simp add: p2_less_iff)
  then have d: "0 \<le> k - (e - 52)" using k by (simp add: e_def)
  define d where "d = nat (k - (e - 52))"
  have kd: "k = (e - 52) + int d" using d by (simp add: d_def)
  have "x / 2 powi (e - 52) = of_int n * 2 powi (int d)"
    by (simp add: x_def kd p2_add)
  also have "\<dots> = of_int (n * 2 ^ d)" by simp
  finally have "round_half_even (x / 2 powi (e - 52)) = n * 2 ^ d"
    by (simp only: round_half_even_of_int)
  then have "round_mag x = of_int (n * 2 ^ d) * 2 powi (e - 52)"
    using x by (simp add: round_mag_def Let_def flip: e_def)
  also have "\<dots> = x" by (simp add: x_def kd p2_add)
  finally show ?thesis by (simp add: x_def)
qed


lemma overflow_limit_p2: "overflow_limit = 2 powi 1024"
  by (simp only: overflow_limit_def power_int_numeral)

lemma overflow_limit_pos: "0 < overflow_limit"
  by (simp add: overflow_limit_p2 del: power_int_numeral)

lemma round64_nonneg:
  "0 \<le> x \<Longrightarrow> round64 x = (if overflow_limit \<le> round_mag x then PInf else Fin (round_mag x))"
  by (simp add: round64_def Let_def)

lemma round64_zero [simp]: "round64 0 = Fin 0"
  using overflow_limit_pos by (simp add: round64_def round_mag_def)

lemma round64_exact:
  assumes "0 < n" "n < 2 ^ 53" "- 1074 \<le> k" "k \<le> 971"
  shows "round64 (of_int n * 2 powi k) = Fin (of_int n * 2 powi k)"
proof -
  have "(of_int n :: rat) < of_int (2 ^ 53)" using assms(2) by (simp only: of_int_less_iff)
  then have "of_int n * (2::rat) powi k < of_int (2 ^ 53) * 2 powi k" by simp
  also have "\<dots> = 2 powi (k + 53)" by (simp add: p2_add)
  also have "\<dots> \<le> overflow_limit" unfolding overflow_limit_p2 using assms(4) by (simp only: p2_le_iff)
  finally have "\<not> overflow_limit \<le> of_int n * 2 powi k" by simp
  moreover have "0 \<le> of_int n * (2::rat) powi k" using assms(1) by simp
  ultimately show ?thesis by (simp add: round64_nonneg round_mag_exact [OF assms(1-3)])
qed

lemma round64_of_int_exact:
  assumes "0 \<le> n" "n < 2 ^ 53"
  shows "round64 (of_int n) = Fin (of_int n)"
proof (cases "n = 0")
  case True
  then show ?thesis by simp
next
  case False
  with assms round64_exact [of n 0] show ?thesis by simp
qed













subsection \<open>Auxiliary facts\<close>

lemma and_then_simps [simp]:
  "and_then (Inl e) f = Inl e" "and_then (Inr x) f = f x"
  by (simp_all add: and_then_def)




text \<open>The body of the loop of \<^verbatim>\<open>compute_total_sales\<close>, statement by statement.\<close>

lemma try_sale_unfold:
  "try_sale cat t x =
     (case getitem x ''Product'' of Inl e \<Rightarrow> Inl e | Inr product \<Rightarrow>
      case getitem x ''Quantity'' of Inl e \<Rightarrow> Inl e | Inr q \<Rightarrow>
      case py_int q of Inl e \<Rightarrow> Inl e | Inr n \<Rightarrow>
      if n \<le> 0 then Inl (ValueError (Some quantity_message)) else
      case hash_key product of Inl e \<Rightarrow> Inl e | Inr h \<Rightarrow>
      case map_of cat h of
        None \<Rightarrow>
          (case format_arg product of Inl e \<Rightarrow> Inl e
           | Inr shown \<Rightarrow> Inr ([Line_value ''Product not found in catalogue: '' shown], t))
      | Some price \<Rightarrow>
      case int_to_float n of Inl e \<Rightarrow> Inl e | Inr b \<Rightarrow> Inr ([], fadd t (fmul price b)))"
  by (simp add: try_sale_def dict_contains_def dict_getitem_def float_mul_int_def and_then_def
        split: sum.splits option.splits)














text \<open>Some values of the rounding, and the integers in and out of the range of the floats.\<close>

lemma round64_samples:
  "round64 1 = Fin 1" "round64 2 = Fin 2" "round64 3 = Fin 3" "round64 (15 / 2) = Fin (15 / 2)"
  "round64 (5 / 2) = Fin (5 / 2)" "round64 10 = Fin 10"
  using round64_of_int_exact [of 1] round64_of_int_exact [of 2] round64_of_int_exact [of 3]
    round64_exact [of 15 "- 1"] round64_exact [of 5 "- 1"] round64_of_int_exact [of 10]
  by simp_all








text \<open>The body of the loop of \<^verbatim>\<open>load_product_catalogue\<close>, and the catalogue it builds.\<close>

lemma try_product_entry_unfold:
  "try_product_entry cat item =
     (case getitem item ''title'' of Inl e \<Rightarrow> Inl e | Inr title \<Rightarrow>
      case getitem item ''price'' of Inl e \<Rightarrow> Inl e | Inr p \<Rightarrow>
      case py_float p of Inl e \<Rightarrow> Inl e | Inr price \<Rightarrow>
      case hash_key title of Inl e \<Rightarrow> Inl e | Inr h \<Rightarrow> Inr (AList.update h price cat))"
  by (simp add: try_product_entry_def dict_setitem_def and_then_def split: sum.splits)















text \<open>The text of a finite float in fixed-point format, and what \<^verbatim>\<open>main\<close> prints and writes.\<close>

lemma is_digit_digit_char: "d < 10 \<Longrightarrow> is_digit (digit_char d)"
  by (simp add: is_digit_def digit_val_def digit_char_def Let_def)

lemma not_digit_point [simp]: "\<not> is_digit CHR ''.''" "\<not> is_digit CHR ''-''"
  by (simp_all add: is_digit_def digit_val_def)

lemma nat_digits_digits: "nat_digits n \<noteq> [] \<and> list_all is_digit (nat_digits n)"
proof (induction n rule: nat_digits.induct)
  case (1 n)
  show ?case
  proof (cases "n < 10")
    case True
    then show ?thesis by (subst nat_digits.simps, subst nat_digits.simps) (simp add: is_digit_digit_char)
  next
    case False
    with 1 have "nat_digits (n div 10) \<noteq> [] \<and> list_all is_digit (nat_digits (n div 10))" by simp
    moreover have "nat_digits n = nat_digits (n div 10) @ [digit_char (n mod 10)]"
      using False by (subst nat_digits.simps) simp
    ultimately show ?thesis by (simp add: is_digit_digit_char)
  qed
qed

lemma frac_digits_digits: "length (frac_digits p m) = p \<and> list_all is_digit (frac_digits p m)"
  by (simp add: frac_digits_def list_all_iff is_digit_digit_char)

lemma fixed_digits_numeral:
  assumes "0 < p"
  shows "fixed_point_numeral p (fixed_digits p m)" and "fixed_point_numeral p (CHR ''-'' # fixed_digits p m)"
proof -
  let ?ip = "nat_digits (m div 10 ^ p)"
  let ?fd = "frac_digits p (m mod 10 ^ p)"
  have f: "fixed_digits p m = ?ip @ CHR ''.'' # ?fd" using assms by (simp add: fixed_digits_def)
  have ip: "?ip \<noteq> []" "list_all is_digit ?ip" using nat_digits_digits by auto
  have tw: "takeWhile is_digit (?ip @ CHR ''.'' # ?fd) = ?ip"
    using ip(2) by (subst takeWhile_append2) (auto simp: list_all_iff)
  obtain c cs where c: "?ip = c # cs" using ip(1) by (cases ?ip) auto
  with ip(2) have "is_digit c" by simp
  then have nm: "c \<noteq> CHR ''-''" by auto
  have body: "(case fixed_digits p m of [] \<Rightarrow> [] | c # cs \<Rightarrow> if c = CHR ''-'' then cs else fixed_digits p m)
      = fixed_digits p m"
    using nm by (simp add: f c)
  show "fixed_point_numeral p (fixed_digits p m)"
    unfolding fixed_point_numeral_def body
    using ip frac_digits_digits [of p "m mod 10 ^ p"] by (simp add: f tw Let_def)
  show "fixed_point_numeral p (CHR ''-'' # fixed_digits p m)"
    unfolding fixed_point_numeral_def
    using ip frac_digits_digits [of p "m mod 10 ^ p"] by (simp add: f tw Let_def)
qed

lemma format_fixed_numeral:
  assumes "is_finite a" and "0 < p"
  shows "fixed_point_numeral p (format_fixed p a)"
  using assms fixed_digits_numeral [OF assms(2)]
  by (cases a) (simp_all add: format_fixed_def is_finite_def)

lemma printed_report:
  "printed_text (report_lines tot elapsed_time) =
     ''Sales Results'' @ newline
     @ ''----------------------------'' @ newline
     @ ''Total sales amount: $'' @ format_fixed 2 tot @ newline
     @ ''Execution time: '' @ format_fixed 6 elapsed_time @ '' seconds'' @ newline"
  by (simp add: printed_text_def report_lines_def)

lemma main_result:
  assumes "main w = (out, Inr written)"
  shows "\<exists>diagnostics tot elapsed_time.
           out = diagnostics @
             [Line (newline @ ''Sales Results''),
              Line ''----------------------------'',
              Line (''Total sales amount: $'' @ format_fixed 2 tot),
              Line (''Execution time: '' @ format_fixed 6 elapsed_time @ '' seconds'')]
         \<and> written = (''SalesResults.txt'', printed_text (report_lines tot elapsed_time))
         \<and> printed_text
             [newline @ ''Sales Results'',
              ''----------------------------'',
              ''Total sales amount: $'' @ format_fixed 2 tot,
              ''Execution time: '' @ format_fixed 6 elapsed_time @ '' seconds'']
           = newline @ snd written"
proof -
  define echo where "echo t e =
             [Line (newline @ ''Sales Results''),
              Line ''----------------------------'',
              Line (''Total sales amount: $'' @ format_fixed 2 t),
              Line (''Execution time: '' @ format_fixed 6 e @ '' seconds'')]" for t e
  let ?e = "fsub (snd (clock w)) (fst (clock w))"
  have main_eq: "main w =
     (if length (argv w) \<noteq> 3 then ([usage], Inl (SystemExit 1))
      else
        case load_product_catalogue (files w) (argv w ! 1) of
             (out1, Inl error) \<Rightarrow> (out1, Inl error)
           | (out1, Inr catalogue) \<Rightarrow>
        case load_sales (files w) (argv w ! 2) of
             (out2, Inl error) \<Rightarrow> (out1 @ out2, Inl error)
           | (out2, Inr sales) \<Rightarrow>
        case compute_total_sales catalogue sales of
             (out3, Inl error) \<Rightarrow> (out1 @ out2 @ out3, Inl error)
           | (out3, Inr tot) \<Rightarrow>
        (out1 @ out2 @ out3 @ echo tot ?e, save_results (writable w) tot ?e))"
    by (simp only: main_def Let_def echo_def)
  have len: "length (argv w) = 3"
  proof (rule ccontr)
    assume "length (argv w) \<noteq> 3"
    with assms show False by (simp only: main_eq if_True prod.inject) simp
  qed
  note unf = main_eq len simp_thms if_False prod.case sum.case prod.inject
  obtain out1 r1 where l1: "load_product_catalogue (files w) (argv w ! 1) = (out1, r1)"
    by (rule prod.exhaust)
  obtain cat where r1: "r1 = Inr cat"
    using assms by (cases r1) (simp_all only: unf l1 sum.distinct)
  obtain out2 r2 where l2: "load_sales (files w) (argv w ! 2) = (out2, r2)"
    by (rule prod.exhaust)
  obtain sales where r2: "r2 = Inr sales"
    using assms by (cases r2) (simp_all only: unf l1 r1 l2 sum.distinct)
  obtain out3 r3 where l3: "compute_total_sales cat sales = (out3, r3)"
    by (rule prod.exhaust)
  obtain tot where r3: "r3 = Inr tot"
    using assms by (cases r3) (simp_all only: unf l1 r1 l2 r2 l3 sum.distinct)
  from assms have "out1 @ out2 @ out3 @ echo tot ?e = out"
    and s: "save_results (writable w) tot ?e = Inr written"
    by (simp_all only: unf l1 r1 l2 r2 l3 r3)
  then have out: "out = (out1 @ out2 @ out3) @ echo tot ?e" by simp
  from s have written: "written = (''SalesResults.txt'', printed_text (report_lines tot ?e))"
    unfolding save_results_def printed_report by (simp split: if_splits)
  have "printed_text
             [newline @ ''Sales Results'',
              ''----------------------------'',
              ''Total sales amount: $'' @ format_fixed 2 tot,
              ''Execution time: '' @ format_fixed 6 ?e @ '' seconds'']
           = newline @ printed_text (report_lines tot ?e)"
    by (simp add: printed_text_def report_lines_def)
  with out written show ?thesis unfolding echo_def by (intro exI conjI) simp_all
qed

lemma round64_three_eighths: "round64 (3 / 8) = Fin (3 / 8)"
  using round64_exact [of 3 "- 3"] by simp

lemma digit_char_values:
  "digit_char 0 = CHR ''0''" "digit_char 1 = CHR ''1''" "digit_char 2 = CHR ''2''"
  "digit_char 3 = CHR ''3''" "digit_char 4 = CHR ''4''" "digit_char 5 = CHR ''5''"
  "digit_char 6 = CHR ''6''" "digit_char 7 = CHR ''7''" "digit_char 8 = CHR ''8''"
  "digit_char 9 = CHR ''9''"
  by code_simp+

lemma format_samples:
  "format_fixed 2 (Fin (15 / 2)) = ''7.50''" "format_fixed 6 (Fin (3 / 8)) = ''0.375000''"
  "format_fixed 6 (Fin 0) = ''0.000000''"
  by (simp_all add: format_fixed_def fixed_digits_def frac_digits_def nat_digits.simps
        digit_char_values round_half_even_def upt_rec)

subsection \<open>The total is the sum of the amounts\<close>




subsection \<open>Returning normally\<close>




subsection \<open>The total is not negative and does not decrease\<close>




subsection \<open>Files that are missing or are not JSON\<close>




subsection \<open>Duplicate titles in the catalogue\<close>




subsection \<open>Products that are not in the catalogue\<close>




subsection \<open>Quantities that are zero or negative\<close>



subsection \<open>The report\<close>

text \<open>
  Claim C8, as amended. For every finite total and every finite elapsed time,
  \<^verbatim>\<open>save_results\<close> (when the file can be opened for writing) writes to the file
  \<^verbatim>\<open>SalesResults.txt\<close> exactly four lines: the title, the separator, the total after
  \<^verbatim>\<open>Total sales amount: $\<close> with exactly two fraction digits, and the elapsed time between
  \<^verbatim>\<open>Execution time: \<close> and \<^verbatim>\<open> seconds\<close> with exactly six fraction digits. Whenever \<^verbatim>\<open>main\<close>
  gets as far as writing the file, the last four lines it has printed are the lines of
  the file, after an empty line.
\<close>

theorem report_layout:
  assumes "may_write ''SalesResults.txt''" and "is_finite tot" and "is_finite elapsed_time"
    and "main w = (out, Inr written)"
  shows "save_results may_write tot elapsed_time
           = Inr (''SalesResults.txt'', printed_text (report_lines tot elapsed_time))
       \<and> fixed_point_numeral 2 (format_fixed 2 tot)
       \<and> fixed_point_numeral 6 (format_fixed 6 elapsed_time)
       \<and> (\<exists>diagnostics t e.
             out = diagnostics @
               [Line (newline @ ''Sales Results''),
                Line ''----------------------------'',
                Line (''Total sales amount: $'' @ format_fixed 2 t),
                Line (''Execution time: '' @ format_fixed 6 e @ '' seconds'')]
           \<and> written = (''SalesResults.txt'', printed_text (report_lines t e))
           \<and> printed_text
               [newline @ ''Sales Results'',
                ''----------------------------'',
                ''Total sales amount: $'' @ format_fixed 2 t,
                ''Execution time: '' @ format_fixed 6 e @ '' seconds'']
             = newline @ snd written)"
proof (intro conjI)
  show "save_results may_write tot elapsed_time
           = Inr (''SalesResults.txt'', printed_text (report_lines tot elapsed_time))"
    unfolding save_results_def printed_report using assms(1) by simp
  show "fixed_point_numeral 2 (format_fixed 2 tot)"
    by (rule format_fixed_numeral [OF assms(2)]) simp
  show "fixed_point_numeral 6 (format_fixed 6 elapsed_time)"
    by (rule format_fixed_numeral [OF assms(3)]) simp
  show "\<exists>diagnostics t e.
             out = diagnostics @
               [Line (newline @ ''Sales Results''),
                Line ''----------------------------'',
                Line (''Total sales amount: $'' @ format_fixed 2 t),
                Line (''Execution time: '' @ format_fixed 6 e @ '' seconds'')]
           \<and> written = (''SalesResults.txt'', printed_text (report_lines t e))
           \<and> printed_text
               [newline @ ''Sales Results'',
                ''----------------------------'',
                ''Total sales amount: $'' @ format_fixed 2 t,
                ''Execution time: '' @ format_fixed 6 e @ '' seconds'']
             = newline @ snd written"
    by (rule main_result [OF assms(4)])
qed

theorem report_layout_witness:
  "is_finite (Fin (15 / 2)) \<and> is_finite (Fin (3 / 8))
   \<and> main \<lparr>argv = [''computeSales.py'', ''catalogue.json'', ''sales.json''],
            files = (\<lambda>n. if n = ''catalogue.json''
                         then Document (PyList [PyDict [(''title'', PyStr ''Widget''),
                                                        (''price'', PyStr ''2.50'')]])
                         else if n = ''sales.json''
                         then Document (PyList [PyDict [(''Product'', PyStr ''Widget''),
                                                        (''Quantity'', PyInt 3)],
                                                PyDict [(''Product'', PyStr ''Unknown''),
                                                        (''Quantity'', PyInt 1)]])
                         else Absent),
            writable = (\<lambda>n. True),
            clock = (Fin 100, Fin (803 / 8))\<rparr>
     = ([Line_value ''Product not found in catalogue: '' (PyStr ''Unknown''),
         Line (newline @ ''Sales Results''),
         Line ''----------------------------'',
         Line ''Total sales amount: $7.50'',
         Line ''Execution time: 0.375000 seconds''],
        Inr (''SalesResults.txt'',
             ''Sales Results'' @ newline @ ''----------------------------'' @ newline
             @ ''Total sales amount: $7.50'' @ newline
             @ ''Execution time: 0.375000 seconds'' @ newline))
   \<and> save_results (\<lambda>n. True) (Fin (15 / 2)) (Fin (3 / 8))
     = Inr (''SalesResults.txt'',
            ''Sales Results'' @ newline @ ''----------------------------'' @ newline
            @ ''Total sales amount: $7.50'' @ newline
            @ ''Execution time: 0.375000 seconds'' @ newline)
   \<and> fixed_point_numeral 2 ''7.50'' \<and> fixed_point_numeral 6 ''0.375000''"
proof -
  let ?cdoc = "PyList [PyDict [(''title'', PyStr ''Widget''), (''price'', PyStr ''2.50'')]]"
  let ?sdoc = "PyList [PyDict [(''Product'', PyStr ''Widget''), (''Quantity'', PyInt 3)],
                       PyDict [(''Product'', PyStr ''Unknown''), (''Quantity'', PyInt 1)]]"
  let ?fs = "\<lambda>n. if n = ''catalogue.json'' then Document ?cdoc
                 else if n = ''sales.json'' then Document ?sdoc else Absent"
  let ?w = "\<lparr>argv = [''computeSales.py'', ''catalogue.json'', ''sales.json''],
             files = ?fs, writable = (\<lambda>n. True), clock = (Fin 100, Fin (803 / 8))\<rparr>"
  let ?content = "''Sales Results'' @ newline @ ''----------------------------'' @ newline
             @ ''Total sales amount: $7.50'' @ newline
             @ ''Execution time: 0.375000 seconds'' @ newline"
  have s: "float_of_str ''2.50'' = Inr (Fin (5 / 2))"
    by (simp add: float_of_str_def strip_def is_space_def split_sign_def lower_def
          is_exp_mark_def parse_mantissa_def parse_exponent_def digit_val_def nat_of_digits_def
          decimal_value_def round64_samples)
  have l1: "load_product_catalogue ?fs ''catalogue.json'' = ([], Inr [(KStr ''Widget'', Fin (5 / 2))])"
    by (simp add: load_product_catalogue_def open_json_def py_iter_def try_product_entry_unfold
          getitem_def py_float_def hash_key_def s)
  have l2: "load_sales ?fs ''sales.json'' = ([], Inr ?sdoc)"
    by (simp add: load_sales_def open_json_def)
  have l3: "compute_total_sales [(KStr ''Widget'', Fin (5 / 2))] ?sdoc
      = ([Line_value ''Product not found in catalogue: '' (PyStr ''Unknown'')], Inr (Fin (15 / 2)))"
    by (simp add: compute_total_sales_def py_iter_def try_sale_unfold getitem_def py_int_def
          hash_key_def format_arg_def int_to_float_def is_infinite_def is_zero_def fval_def
          fmul_def fadd_def round64_samples)
  have e: "fsub (Fin (803 / 8)) (Fin 100) = Fin (3 / 8)"
    by (simp add: fsub_def fneg_def fadd_def is_infinite_def fval_def round64_three_eighths)
  have m: "main ?w =
     ([Line_value ''Product not found in catalogue: '' (PyStr ''Unknown''),
       Line (newline @ ''Sales Results''),
       Line ''----------------------------'',
       Line ''Total sales amount: $7.50'',
       Line ''Execution time: 0.375000 seconds''],
      Inr (''SalesResults.txt'', ?content))"
    by (simp add: main_def l1 l2 l3 e save_results_def format_samples)
  have a: "(\<lambda>n::string. True) ''SalesResults.txt''" by simp
  have f1: "is_finite (Fin (15 / 2))" and f2: "is_finite (Fin (3 / 8))"
    by (simp_all add: is_finite_def)
  from report_layout [of "\<lambda>n. True", OF a f1 f2 m] m f1 f2
  show ?thesis by (simp add: format_samples printed_report)
qed

text \<open>
  As stated for every total the claim fails: a total that is infinite (a price given as
  \<^verbatim>\<open>1e999\<close> or \<^verbatim>\<open>"inf"\<close> is accepted by the loader, and a sum can overflow) is written as
  \<^verbatim>\<open>inf\<close>, which has no fraction digits.
\<close>

theorem report_layout_counterexample:
  "save_results (\<lambda>n. True) PInf (Fin 0)
     = Inr (''SalesResults.txt'',
            ''Sales Results'' @ newline @ ''----------------------------'' @ newline
            @ ''Total sales amount: $inf'' @ newline
            @ ''Execution time: 0.000000 seconds'' @ newline)
   \<and> \<not> fixed_point_numeral 2 (format_fixed 2 PInf)"
  by (simp add: save_results_def format_samples)
     (simp add: format_fixed_def fixed_point_numeral_def is_digit_def digit_val_def)

subsection \<open>A catalogue document that cannot be iterated\<close>

text \<open>
  Claim C9. A catalogue file whose content is well-formed JSON with a top-level value
  that is a number, a truth value or \<^verbatim>\<open>null\<close> makes \<^verbatim>\<open>load_product_catalogue\<close> raise
  TypeError at the \<^verbatim>\<open>for\<close> statement: nothing is printed and no mapping is returned,
  since the handlers around it are for FileNotFoundError and JSONDecodeError only.
\<close>

theorem non_iterable_document_raises:
  assumes "fs filename = Document v"
    and "v = PyNone \<or> (\<exists>b. v = PyBool b) \<or> (\<exists>i. v = PyInt i) \<or> (\<exists>x. v = PyFloat x)"
  shows "load_product_catalogue fs filename = ([], Inl TypeError)"
  using assms by (auto simp: load_product_catalogue_def open_json_def py_iter_def)

theorem non_iterable_document_raises_witness:
  "(\<lambda>n. Document (PyInt 5)) ''catalogue.json'' = Document (PyInt 5)
   \<and> load_product_catalogue (\<lambda>n. Document (PyInt 5)) ''catalogue.json'' = ([], Inl TypeError)"
  using non_iterable_document_raises [of "\<lambda>n. Document (PyInt 5)" "''catalogue.json''" "PyInt 5"]
  by simp

subsection \<open>Quantities with a fractional part\<close>



end
